theory Spec2Isabelle
  imports Complex_Main
begin

section \<open>Python values\<close>

text \<open>
  The values main.py handles are those of parsed JSON: None, booleans, integers, floats,
  strings, lists and dictionaries. A dictionary is the list of its items, looked up with
  \<open>map_of\<close>. Floating-point numbers are not modelled: a float is a value of the type
  parameter \<open>'f\<close>, which the program only carries around and prints. A \<open>string\<close>
  holds a text as its UTF-8 bytes.
\<close>

datatype 'f pyval =
    PNone
  | PBool bool
  | PInt int
  | PFloat 'f
  | PStr string
  | PList "'f pyval list"
  | PDict "(string \<times> 'f pyval) list"

text \<open>The name that \<open>type(v).__name__\<close> has in the interpreter's error messages.\<close>

fun type_name :: "'f pyval \<Rightarrow> string" where
  "type_name PNone = ''NoneType''"
| "type_name (PBool b) = ''bool''"
| "type_name (PInt i) = ''int''"
| "type_name (PFloat x) = ''float''"
| "type_name (PStr s) = ''str''"
| "type_name (PList xs) = ''list''"
| "type_name (PDict kvs) = ''dict''"

text \<open>
  Exceptions, all of them instances of \<open>Exception\<close>. \<open>ProviderError t\<close> is any exception
  raised inside an outbound call, known by its text \<open>str(e) = t\<close>. The others are raised by the interpreter on the operations main.py
  performs: \<open>v.get\<close> on a value without that method, \<open>v[:5]\<close> on a value that cannot be
  sliced, \<open>s['k']\<close> on a dictionary without the key, \<open>xs[0]\<close> on an empty list.
\<close>

datatype 'f exn =
    ProviderError string
  | AttributeError "'f pyval" string
  | NotSliceable "'f pyval"
  | KeyError string
  | IndexError

section \<open>The outside world\<close>

text \<open>
  \<open>GoogleSearch({"q": query, "api_key": SERPAPI_KEY, "num": 5})\<close>: the parameters of the
  search. \<open>os.getenv\<close> returns None for a variable that is not set.
\<close>

record search_params =
  q :: string
  api_key :: "string option"
  num :: int

record message =
  role :: string
  content :: string

text \<open>The keyword arguments of \<open>client.chat.completions.create\<close>.\<close>

record completion_request =
  model :: string
  messages :: "message list"
  temperature :: real
  max_tokens :: int

text \<open>
  What main.py reads of a completion: \<open>chat_completion.choices[k].message.content\<close>,
  a string or None.
\<close>

record chat_completion =
  choices :: "string option list"

text \<open>
  The environment of one request: the credential read at start-up, the two providers, and
  the texts the interpreter produces that are not modelled here. A provider either raises
  (\<open>Inl\<close> the exception's text) or returns (\<open>Inr\<close>). The handler calls each provider at most
  once per request, so a function of the call's arguments describes what the provider
  answers in that request; nothing is assumed about its answers.
\<close>

record 'f env =
  SERPAPI_KEY :: "string option"
  get_dict :: "search_params \<Rightarrow> string + 'f pyval"
  completions_create :: "completion_request \<Rightarrow> string + chat_completion"
  py_repr :: "'f pyval \<Rightarrow> string"
  slice_dict_message :: string

text \<open>The outbound calls a run performs, in order.\<close>

datatype call = SearchCall search_params | CompletionCall completion_request

fun is_search :: "call \<Rightarrow> bool" where
  "is_search (SearchCall p) = True"
| "is_search (CompletionCall r) = False"

fun is_completion :: "call \<Rightarrow> bool" where
  "is_completion (SearchCall p) = False"
| "is_completion (CompletionCall r) = True"

section \<open>Converting values to text\<close>

text \<open>The decimal digit for \<open>n < 10\<close>, and the decimal numeral of a number.\<close>

definition digit_char :: "nat \<Rightarrow> char" where
  "digit_char n = ''0123456789'' ! n"

function str_nat :: "nat \<Rightarrow> string" where
  "str_nat n = (if n < 10 then [digit_char n] else str_nat (n div 10) @ [digit_char (n mod 10)])"
  by pat_completeness auto
termination
  by (relation "measure id") auto

declare str_nat.simps [simp del]

definition str_int :: "int \<Rightarrow> string" where
  "str_int i = (if i < 0 then ''-'' @ str_nat (nat (- i)) else str_nat (nat i))"

text \<open>
  \<open>str(v)\<close>, which is what an f-string field \<open>{v}\<close> prints. The text of a float, a list
  or a dictionary is the interpreter's \<open>repr\<close>, taken from the environment.
\<close>

fun py_str :: "'f env \<Rightarrow> 'f pyval \<Rightarrow> string" where
  "py_str env PNone = ''None''"
| "py_str env (PBool b) = (if b then ''True'' else ''False'')"
| "py_str env (PInt i) = str_int i"
| "py_str env (PStr s) = s"
| "py_str env v = py_repr env v"

text \<open>
  \<open>str(e)\<close>. Slicing a dictionary raises an exception whose class and text depend on the
  interpreter's version; its text is taken from the environment.
\<close>

fun str_exn :: "'f env \<Rightarrow> 'f exn \<Rightarrow> string" where
  "str_exn env (ProviderError t) = t"
| "str_exn env (AttributeError v a) =
     [CHR 0x27] @ type_name v @ [CHR 0x27] @ '' object has no attribute '' @ [CHR 0x27] @ a @ [CHR 0x27]"
| "str_exn env (NotSliceable (PDict kvs)) = slice_dict_message env"
| "str_exn env (NotSliceable v) =
     [CHR 0x27] @ type_name v @ [CHR 0x27] @ '' object is not subscriptable''"
| "str_exn env (KeyError k) = [CHR 0x27] @ k @ [CHR 0x27]"
| "str_exn env IndexError = ''list index out of range''"

section \<open>Supplier lookup: get_supplier_data\<close>

text \<open>\<open>HTTPException(status_code=..., detail=...)\<close>.\<close>

datatype http_exception = HTTPException nat string

text \<open>A supplier is the dictionary built in the loop, with its items in the order written.\<close>

type_synonym 'f supplier = "(string \<times> 'f pyval) list"

text \<open>\<open>query = f"{material} suppliers in {location}"\<close>\<close>

definition search_query :: "string \<Rightarrow> string \<Rightarrow> string" where
  "search_query material location = material @ '' suppliers in '' @ location"

definition search_request :: "'f env \<Rightarrow> string \<Rightarrow> string \<Rightarrow> search_params" where
  "search_request env material location =
     \<lparr>q = search_query material location, api_key = SERPAPI_KEY env, num = 5\<rparr>"

text \<open>\<open>d.get(k, default)\<close>: a method of dictionaries only.\<close>

definition dict_get :: "'f pyval \<Rightarrow> string \<Rightarrow> 'f pyval \<Rightarrow> 'f exn + 'f pyval" where
  "dict_get d k dflt =
     (case d of
        PDict kvs \<Rightarrow> Inr (case map_of kvs k of None \<Rightarrow> dflt | Some v \<Rightarrow> v)
      | _ \<Rightarrow> Inl (AttributeError d ''get''))"

text \<open>
  \<open>organic[:5]\<close>, as the sequence the loop then runs over. A list gives its first five
  elements; a string gives its first five characters, each a string; nothing else can be
  sliced.
\<close>

definition slice5 :: "'f pyval \<Rightarrow> 'f exn + 'f pyval list" where
  "slice5 v =
     (case v of
        PList xs \<Rightarrow> Inr (take 5 xs)
      | PStr s \<Rightarrow> Inr (map (\<lambda>c. PStr [c]) (take 5 s))
      | _ \<Rightarrow> Inl (NotSliceable v))"

text \<open>
  The loop \<open>for res in organic[:5]: suppliers.append({...})\<close>, with the list built so far
  as the accumulator. The three \<open>get\<close> calls run in the order written.
\<close>

fun suppliers_loop :: "'f pyval list \<Rightarrow> 'f supplier list \<Rightarrow> 'f exn + 'f supplier list" where
  "suppliers_loop [] suppliers = Inr suppliers"
| "suppliers_loop (res # rest) suppliers =
     (case dict_get res ''title'' PNone of
        Inl e \<Rightarrow> Inl e
      | Inr t \<Rightarrow>
          (case dict_get res ''link'' PNone of
             Inl e \<Rightarrow> Inl e
           | Inr l \<Rightarrow>
               (case dict_get res ''snippet'' PNone of
                  Inl e \<Rightarrow> Inl e
                | Inr s \<Rightarrow>
                    suppliers_loop rest
                      (suppliers @ [[(''title'', t), (''link'', l), (''snippet'', s)]]))))"

text \<open>The body of the \<open>try\<close> block, after the search request has been built.\<close>

definition try_body :: "'f env \<Rightarrow> search_params \<Rightarrow> 'f exn + 'f supplier list" where
  "try_body env params =
     (case get_dict env params of
        Inl t \<Rightarrow> Inl (ProviderError t)
      | Inr results \<Rightarrow>
          (case dict_get results ''organic_results'' (PList []) of
             Inl e \<Rightarrow> Inl e
           | Inr organic \<Rightarrow>
               (case slice5 organic of
                  Inl e \<Rightarrow> Inl e
                | Inr rs \<Rightarrow> suppliers_loop rs [])))"

text \<open>
  \<open>get_supplier_data\<close>: the result or the HTTPException raised, and the outbound calls
  made. \<open>except Exception as e\<close> turns every exception of the body into a 500.
\<close>

definition get_supplier_data ::
  "'f env \<Rightarrow> string \<Rightarrow> string \<Rightarrow> (http_exception + 'f supplier list) \<times> call list" where
  "get_supplier_data env material location =
     (let params = search_request env material location in
      (case try_body env params of
         Inl e \<Rightarrow> Inl (HTTPException 500 (''SERPAPI error: '' @ str_exn env e))
       | Inr suppliers \<Rightarrow> Inr suppliers,
       [SearchCall params]))"

section \<open>Recommendation generator: generate_recommendation\<close>

text \<open>\<open>s['k']\<close>: a dictionary without the key raises KeyError.\<close>

definition subscript :: "'f supplier \<Rightarrow> string \<Rightarrow> 'f exn + 'f pyval" where
  "subscript s k = (case map_of s k of None \<Rightarrow> Inl (KeyError k) | Some v \<Rightarrow> Inr v)"

text \<open>\<open>f"- {s['title']}: {s['link']} ({s['snippet']})"\<close>, its fields read left to right.\<close>

definition supplier_line :: "'f env \<Rightarrow> 'f supplier \<Rightarrow> 'f exn + string" where
  "supplier_line env s =
     (case subscript s ''title'' of
        Inl e \<Rightarrow> Inl e
      | Inr t \<Rightarrow>
          (case subscript s ''link'' of
             Inl e \<Rightarrow> Inl e
           | Inr l \<Rightarrow>
               (case subscript s ''snippet'' of
                  Inl e \<Rightarrow> Inl e
                | Inr n \<Rightarrow>
                    Inr (''- '' @ py_str env t @ '': '' @ py_str env l @ '' ('' @ py_str env n @ '')''))))"

text \<open>The list comprehension over \<open>suppliers\<close>: the first exception ends it.\<close>

fun supplier_lines :: "'f env \<Rightarrow> 'f supplier list \<Rightarrow> 'f exn + string list" where
  "supplier_lines env [] = Inr []"
| "supplier_lines env (s # ss) =
     (case supplier_line env s of
        Inl e \<Rightarrow> Inl e
      | Inr line \<Rightarrow>
          (case supplier_lines env ss of
             Inl e \<Rightarrow> Inl e
           | Inr lns \<Rightarrow> Inr (line # lns)))"

text \<open>\<open>sep.join(xs)\<close>\<close>

fun join :: "string \<Rightarrow> string list \<Rightarrow> string" where
  "join sep [] = []"
| "join sep [x] = x"
| "join sep (x # y # ys) = x @ sep @ join sep (y # ys)"

definition nl :: string where
  "nl = [CHR 0x0A]"

text \<open>The three characters before \<open>{budget}\<close> in the template, as the bytes main.py holds.\<close>

definition currency_mark :: string where
  "currency_mark = [CHR 0xC3, CHR 0xA2, CHR 0xE2, CHR 0x80, CHR 0x9A, CHR 0xC2, CHR 0xB9]"

text \<open>
  The template \<open>prompt = f"""..."""\<close>, line by line, with the texts of its five fields
  as arguments.
\<close>

definition prompt_template :: "string \<Rightarrow> string \<Rightarrow> string \<Rightarrow> string \<Rightarrow> string \<Rightarrow> string" where
  "prompt_template material quantity location budget supplier_summary =
     nl @
     ''    You are an AI procurement strategist for POWERGRID.'' @ nl @
     ''    Analyze the following inputs and recommend a procurement plan.'' @ nl @
     nl @
     ''    Material: '' @ material @ nl @
     ''    Required Quantity: '' @ quantity @ nl @
     ''    Project Location: '' @ location @ nl @
     ''    Budget: '' @ currency_mark @ budget @ nl @
     nl @
     ''    Available supplier data:'' @ nl @
     ''    '' @ supplier_summary @ nl @
     nl @
     ''    Provide:'' @ nl @
     ''    1. Top 3 suppliers ranked by relevance.'' @ nl @
     ''    2. Recommended order quantity split (if applicable).'' @ nl @
     ''    3. Estimated total cost and delivery timeframe.'' @ nl @
     ''    4. Any risk factors or negotiation suggestions.'' @ nl @
     ''    ''"

text \<open>The two assignments before the completion call: \<open>supplier_summary\<close>, then \<open>prompt\<close>.\<close>

definition build_prompt ::
  "'f env \<Rightarrow> string \<Rightarrow> int \<Rightarrow> string \<Rightarrow> 'f \<Rightarrow> 'f supplier list \<Rightarrow> 'f exn + string" where
  "build_prompt env material quantity location budget suppliers =
     (case supplier_lines env suppliers of
        Inl e \<Rightarrow> Inl e
      | Inr lns \<Rightarrow>
          Inr (prompt_template material (str_int quantity) location
                 (py_str env (PFloat budget)) (join nl lns)))"

text \<open>The arguments of \<open>client.chat.completions.create\<close> for a prompt.\<close>

definition chat_request :: "string \<Rightarrow> completion_request" where
  "chat_request prompt =
     \<lparr>model = ''llama-3.1-8b-instant'',
      messages =
        [\<lparr>role = ''system'', content = ''You are an expert AI procurement assistant.''\<rparr>,
         \<lparr>role = ''user'', content = prompt\<rparr>],
      temperature = 0.7,
      max_tokens = 800\<rparr>"

text \<open>
  \<open>generate_recommendation\<close>: the text returned or the exception raised, and the outbound
  calls made. Nothing in it catches an exception. \<open>choices[0]\<close> of an empty list raises
  IndexError.
\<close>

definition generate_recommendation ::
  "'f env \<Rightarrow> string \<Rightarrow> int \<Rightarrow> string \<Rightarrow> 'f \<Rightarrow> 'f supplier list \<Rightarrow>
     ('f exn + string option) \<times> call list" where
  "generate_recommendation env material quantity location budget suppliers =
     (case build_prompt env material quantity location budget suppliers of
        Inl e \<Rightarrow> (Inl e, [])
      | Inr prompt \<Rightarrow>
          (case completions_create env (chat_request prompt) of
             Inl t \<Rightarrow> (Inl (ProviderError t), [CompletionCall (chat_request prompt)])
           | Inr chat \<Rightarrow>
               (case choices chat of
                  [] \<Rightarrow> (Inl IndexError, [CompletionCall (chat_request prompt)])
                | c # cs \<Rightarrow> (Inr c, [CompletionCall (chat_request prompt)]))))"

section \<open>The endpoint: recommend_procurement\<close>

record 'f ProcurementRequest =
  material_name :: string
  quantity :: int
  location :: string
  budget :: 'f

text \<open>
  How a call of the handler ends: it returns the response dictionary, it raises an
  HTTPException, or another exception leaves it uncaught.
\<close>

datatype 'f outcome =
    Returned "(string \<times> 'f pyval) list"
  | RaisedHTTP http_exception
  | Uncaught "'f exn"

definition content_val :: "string option \<Rightarrow> 'f pyval" where
  "content_val c = (case c of None \<Rightarrow> PNone | Some s \<Rightarrow> PStr s)"

definition recommend_procurement ::
  "'f env \<Rightarrow> 'f ProcurementRequest \<Rightarrow> 'f outcome \<times> call list" where
  "recommend_procurement env request =
     (case get_supplier_data env (material_name request) (location request) of
        (Inl h, calls) \<Rightarrow> (RaisedHTTP h, calls)
      | (Inr suppliers, calls) \<Rightarrow>
          if suppliers = [] then (RaisedHTTP (HTTPException 404 ''No suppliers found.''), calls)
          else
            (case generate_recommendation env (material_name request) (quantity request)
                    (location request) (budget request) suppliers of
               (Inl e, calls') \<Rightarrow> (Uncaught e, calls @ calls')
             | (Inr recommendation, calls') \<Rightarrow>
                 (Returned
                    [(''material'', PStr (material_name request)),
                     (''location'', PStr (location request)),
                     (''budget'', PFloat (budget request)),
                     (''recommendation'', content_val recommendation),
                     (''top_suppliers'', PList (map PDict suppliers))],
                  calls @ calls')))"

section \<open>Notions used to state the properties\<close>

text \<open>\<open>res.get(k)\<close> for a dictionary \<open>res\<close>: the value under the key, or None.\<close>

definition res_get :: "(string \<times> 'f pyval) list \<Rightarrow> string \<Rightarrow> 'f pyval" where
  "res_get d k = (case map_of d k of None \<Rightarrow> PNone | Some v \<Rightarrow> v)"

text \<open>The dictionary that the loop of \<open>get_supplier_data\<close> appends for a result \<open>d\<close>.\<close>

definition supplier_of :: "(string \<times> 'f pyval) list \<Rightarrow> 'f supplier" where
  "supplier_of d =
     [(''title'', res_get d ''title''), (''link'', res_get d ''link''),
      (''snippet'', res_get d ''snippet'')]"

text \<open>A dictionary with exactly the keys title, link and snippet, in this order.\<close>

fun well_shaped :: "'f supplier \<Rightarrow> bool" where
  "well_shaped [(a, t), (b, l), (c, n)] = (a = ''title'' \<and> b = ''link'' \<and> c = ''snippet'')"
| "well_shaped s = False"

text \<open>A dictionary that has the three keys, whatever else it holds.\<close>

definition has_fields :: "'f supplier \<Rightarrow> bool" where
  "has_fields s =
     (map_of s ''title'' \<noteq> None \<and> map_of s ''link'' \<noteq> None \<and> map_of s ''snippet'' \<noteq> None)"

section \<open>Concrete runs\<close>

text \<open>
  An environment whose providers give the same answer to every call, with floats as real
  numbers. The only float these runs print is the budget 200000.
\<close>

definition fixed_env :: "string + real pyval \<Rightarrow> string + chat_completion \<Rightarrow> real env" where
  "fixed_env search_answer completion_answer =
     \<lparr>SERPAPI_KEY = Some ''key'',
      get_dict = (\<lambda>p. search_answer),
      completions_create = (\<lambda>r. completion_answer),
      py_repr = (\<lambda>v. ''200000.0''),
      slice_dict_message = ''slice(None, 5, None)''\<rparr>"

text \<open>The request of the spec's scenario.\<close>

definition scenario_request :: "real ProcurementRequest" where
  "scenario_request =
     \<lparr>material_name = ''copper cable'', quantity = 500, location = ''Pune'', budget = 200000\<rparr>"

text \<open>
  Three organic results: a complete one, one without a snippet, and one that has only a
  link and a key the program does not read.
\<close>

definition three_results :: "(string \<times> real pyval) list list" where
  "three_results =
     [[(''position'', PInt 1), (''title'', PStr ''Apex Cables''),
       (''link'', PStr ''https://apex.example''), (''snippet'', PStr ''Copper cable maker'')],
      [(''title'', PStr ''Pune Wires''), (''link'', PStr ''https://wires.example'')],
      [(''link'', PStr ''https://third.example''), (''position'', PInt 3)]]"

definition three_suppliers :: "real supplier list" where
  "three_suppliers =
     [[(''title'', PStr ''Apex Cables''), (''link'', PStr ''https://apex.example''),
       (''snippet'', PStr ''Copper cable maker'')],
      [(''title'', PStr ''Pune Wires''), (''link'', PStr ''https://wires.example''),
       (''snippet'', PNone)],
      [(''title'', PNone), (''link'', PStr ''https://third.example''), (''snippet'', PNone)]]"

text \<open>Six organic results, each with a title only.\<close>

definition six_results :: "(string \<times> real pyval) list list" where
  "six_results = map (\<lambda>t. [(''title'', PStr t)]) [''a'', ''b'', ''c'', ''d'', ''e'', ''f'']"

definition search_answer_of :: "(string \<times> real pyval) list list \<Rightarrow> string + real pyval" where
  "search_answer_of organic = Inr (PDict [(''organic_results'', PList (map PDict organic))])"

definition completion_answer_of :: "string option \<Rightarrow> string + chat_completion" where
  "completion_answer_of c = Inr \<lparr>choices = [c]\<rparr>"

section \<open>Request validation\<close>

text \<open>
  The fields that \<open>class ProcurementRequest(BaseModel)\<close> declares, with their types.
\<close>

datatype field_type = StrField | IntField | FloatField

definition ProcurementRequest_fields :: "(string \<times> field_type) list" where
  "ProcurementRequest_fields =
     [(''material_name'', StrField), (''quantity'', IntField),
      (''location'', StrField), (''budget'', FloatField)]"

text \<open>
  Modelled from the spec: when a value has the type of a field. The check is the web
  framework's and is not part of main.py, which only declares the fields above. The
  spec: the validator "parses and type-checks the inbound payload (material name,
  quantity, location, budget). No business rules beyond presence/type", and the body's
  budget is a "number". So a string has the type of a string field, an integer that of an
  integer field, and an integer or a float that of a float field.
\<close>

fun has_type :: "field_type \<Rightarrow> 'f pyval \<Rightarrow> bool" where
  "has_type StrField (PStr s) = True"
| "has_type IntField (PInt i) = True"
| "has_type FloatField (PFloat x) = True"
| "has_type FloatField (PInt i) = True"
| "has_type ty v = False"

text \<open>
  Modelled from the spec: the request validator, which is the web framework's and is not
  part of main.py. It accepts a dictionary in which each declared field is present with a
  value of its type, and gives the request with these values; \<open>float_of i\<close> is the float
  of an integer budget. Nothing else is checked.
\<close>

definition validate :: "(int \<Rightarrow> 'f) \<Rightarrow> 'f pyval \<Rightarrow> 'f ProcurementRequest option" where
  "validate float_of body =
     (case body of
        PDict kvs \<Rightarrow>
          (case map_of kvs ''material_name'' of
             Some (PStr m) \<Rightarrow>
               (case map_of kvs ''quantity'' of
                  Some (PInt n) \<Rightarrow>
                    (case map_of kvs ''location'' of
                       Some (PStr l) \<Rightarrow>
                         (case map_of kvs ''budget'' of
                            Some (PFloat x) \<Rightarrow>
                              Some \<lparr>material_name = m, quantity = n, location = l, budget = x\<rparr>
                          | Some (PInt i) \<Rightarrow>
                              Some \<lparr>material_name = m, quantity = n, location = l,
                                    budget = float_of i\<rparr>
                          | _ \<Rightarrow> None)
                     | _ \<Rightarrow> None)
                | _ \<Rightarrow> None)
           | _ \<Rightarrow> None)
      | _ \<Rightarrow> None)"

text \<open>How the route answers a body: it rejects it with a status, or the handler runs.\<close>

datatype 'f reply = Rejected nat | Handled "'f outcome"

text \<open>
  Modelled from the spec: the route, which the web framework runs around the handler. The
  spec: "validate, then lookup_suppliers, ..."; a malformed body is "rejected by schema
  validation before reaching business logic", with status 422. Otherwise the handler runs
  on the validated request.
\<close>

definition serve :: "(int \<Rightarrow> 'f) \<Rightarrow> 'f env \<Rightarrow> 'f pyval \<Rightarrow> 'f reply \<times> call list" where
  "serve float_of env body =
     (case validate float_of body of
        None \<Rightarrow> (Rejected 422, [])
      | Some request \<Rightarrow>
          (Handled (fst (recommend_procurement env request)),
           snd (recommend_procurement env request)))"

section \<open>Facts about supplier lookup\<close>

lemma well_shaped_cases:
  "well_shaped s \<Longrightarrow> \<exists>t l n. s = [(''title'', t), (''link'', l), (''snippet'', n)]"
  by (cases s rule: well_shaped.cases) auto

lemma well_shaped_has_fields: "well_shaped s \<Longrightarrow> has_fields s"
  using well_shaped_cases [of s] by (auto simp: has_fields_def)

lemma suppliers_loop_dicts:
  "suppliers_loop (map PDict ds) acc = Inr (acc @ map supplier_of ds)"
  by (induction ds arbitrary: acc) (simp_all add: dict_get_def supplier_of_def res_get_def)

lemma suppliers_loop_shape:
  "suppliers_loop rs acc = Inr ss \<Longrightarrow> list_all well_shaped acc \<Longrightarrow> list_all well_shaped ss"
proof (induction rs arbitrary: acc)
  case Nil
  then show ?case by simp
next
  case (Cons r rs)
  from Cons.prems(1) obtain t l n where
    step: "suppliers_loop rs (acc @ [[(''title'', t), (''link'', l), (''snippet'', n)]]) = Inr ss"
    by (simp split: sum.splits)
  have "list_all well_shaped (acc @ [[(''title'', t), (''link'', l), (''snippet'', n)]])"
    using Cons.prems(2) by simp
  with step show ?case by (rule Cons.IH)
qed

lemma try_body_shape:
  assumes "try_body env params = Inr ss"
  shows "list_all well_shaped ss"
proof -
  from assms obtain rs where "suppliers_loop rs [] = Inr ss"
    by (auto simp: try_body_def split: sum.splits)
  then show ?thesis
    using suppliers_loop_shape [of rs "[]" ss] by simp
qed

lemma get_supplier_data_calls:
  "snd (get_supplier_data env mat loc) = [SearchCall (search_request env mat loc)]"
  by (simp add: get_supplier_data_def Let_def)

lemma get_supplier_data_Inr:
  "fst (get_supplier_data env mat loc) = Inr ss \<longleftrightarrow>
     try_body env (search_request env mat loc) = Inr ss"
  by (simp add: get_supplier_data_def Let_def split: sum.splits)

lemma get_supplier_data_shape:
  "fst (get_supplier_data env mat loc) = Inr ss \<Longrightarrow> list_all well_shaped ss"
  using try_body_shape by (simp add: get_supplier_data_Inr)

lemma try_body_organic:
  assumes "get_dict env params = Inr (PDict results)"
    and "map_of results ''organic_results'' = Some (PList (map PDict organic))"
  shows "try_body env params = Inr (map supplier_of (take 5 organic))"
  using assms suppliers_loop_dicts [of "take 5 organic" "[]"]
  by (simp add: try_body_def dict_get_def slice5_def take_map)

lemma try_body_no_organic:
  assumes "get_dict env params = Inr (PDict results)"
    and "map_of results ''organic_results'' = None \<or>
         map_of results ''organic_results'' = Some (PList [])"
  shows "try_body env params = Inr []"
  using assms by (auto simp: try_body_def dict_get_def slice5_def)

lemma try_body_raises:
  "get_dict env params = Inl t \<Longrightarrow> try_body env params = Inl (ProviderError t)"
  by (simp add: try_body_def)

section \<open>Facts about the recommendation generator\<close>

lemma generate_recommendation_no_search:
  "filter is_search (snd (generate_recommendation env m qty l b ss)) = []"
  by (simp add: generate_recommendation_def split: sum.splits list.splits)

lemma supplier_line_fields:
  assumes "has_fields s"
  shows "\<exists>t l n. map_of s ''title'' = Some t \<and> map_of s ''link'' = Some l \<and>
           map_of s ''snippet'' = Some n \<and>
           supplier_line env s =
             Inr (''- '' @ py_str env t @ '': '' @ py_str env l @ '' ('' @ py_str env n @ '')'')"
  using assms by (auto simp: has_fields_def supplier_line_def subscript_def)

lemma supplier_lines_fields:
  "list_all has_fields ss \<Longrightarrow>
     \<exists>lns. supplier_lines env ss = Inr lns \<and> length lns = length ss \<and>
       (\<forall>i<length ss. supplier_line env (ss ! i) = Inr (lns ! i))"
proof (induction ss)
  case Nil
  then show ?case by simp
next
  case (Cons s ss)
  from Cons.prems have "has_fields s" and rest: "list_all has_fields ss" by simp_all
  then obtain line where line: "supplier_line env s = Inr line"
    using supplier_line_fields [of s env] by blast
  from Cons.IH [OF rest] obtain lns where
    lns: "supplier_lines env ss = Inr lns" "length lns = length ss"
      "\<forall>i<length ss. supplier_line env (ss ! i) = Inr (lns ! i)"
    by blast
  have "\<forall>i<length (s # ss). supplier_line env ((s # ss) ! i) = Inr ((line # lns) ! i)"
    using line lns(3) by (simp add: nth_Cons split: nat.splits)
  with line lns(1,2) show ?case by simp
qed

lemma build_prompt_fields:
  assumes "list_all has_fields ss"
  shows "\<exists>p. build_prompt env m qty l b ss = Inr p"
proof -
  from supplier_lines_fields [OF assms, of env] obtain lns where
    "supplier_lines env ss = Inr lns" by blast
  then show ?thesis by (simp add: build_prompt_def)
qed

lemma generate_recommendation_no_search_pair:
  "generate_recommendation env m qty l b ss = (r, cs) \<Longrightarrow> filter is_search cs = []"
  using generate_recommendation_no_search [of env m qty l b ss] by simp

section \<open>Facts about the endpoint\<close>

lemma recommend_procurement_Returned:
  assumes "fst (recommend_procurement env request) = Returned resp"
  shows "\<exists>suppliers c.
           fst (get_supplier_data env (material_name request) (location request)) = Inr suppliers \<and>
           suppliers \<noteq> [] \<and>
           fst (generate_recommendation env (material_name request) (quantity request)
                  (location request) (budget request) suppliers) = Inr c \<and>
           resp =
             [(''material'', PStr (material_name request)),
              (''location'', PStr (location request)),
              (''budget'', PFloat (budget request)),
              (''recommendation'', content_val c),
              (''top_suppliers'', PList (map PDict suppliers))]"
  using assms
  by (auto simp: recommend_procurement_def split: prod.splits sum.splits if_splits)

lemma generate_recommendation_Inr:
  assumes "fst (generate_recommendation env m qty l b ss) = Inr c"
  shows "\<exists>p chat cs. build_prompt env m qty l b ss = Inr p \<and>
           completions_create env (chat_request p) = Inr chat \<and> choices chat = c # cs"
  using assms
  by (auto simp: generate_recommendation_def split: sum.splits list.splits)

lemma get_supplier_data_organic:
  assumes "get_dict env (search_request env mat loc) = Inr (PDict results)"
    and "map_of results ''organic_results'' = Some (PList (map PDict organic))"
  shows "fst (get_supplier_data env mat loc) = Inr (map supplier_of (take 5 organic))"
  using try_body_organic [OF assms] by (simp add: get_supplier_data_Inr)

lemma supplier_of_field:
  "k \<in> {''title'', ''link'', ''snippet''} \<Longrightarrow>
     map_of (supplier_of d) k = Some (case map_of d k of None \<Rightarrow> PNone | Some v \<Rightarrow> v)"
  by (auto simp: supplier_of_def res_get_def)

lemma fixed_env_simps:
  "get_dict (fixed_env a b) p = a"
  "completions_create (fixed_env a b) r = b"
  "SERPAPI_KEY (fixed_env a b) = Some ''key''"
  by (simp_all add: fixed_env_def)

lemma lookup_three_results:
  "fst (get_supplier_data (fixed_env (search_answer_of three_results) b) mat loc) = Inr three_suppliers"
proof -
  have "map supplier_of (take 5 three_results) = three_suppliers"
    by (simp add: three_results_def three_suppliers_def supplier_of_def res_get_def)
  then show ?thesis
    using get_supplier_data_organic
      [of "fixed_env (search_answer_of three_results) b" mat loc
          "[(''organic_results'', PList (map PDict three_results))]" three_results]
    by (simp add: fixed_env_simps search_answer_of_def)
qed

lemma three_suppliers_fields: "list_all has_fields three_suppliers"
  by (simp add: three_suppliers_def has_fields_def)

lemma recommend_procurement_success:
  assumes "fst (get_supplier_data env (material_name request) (location request)) = Inr ss"
    and "ss \<noteq> []"
    and "\<And>r. completions_create env r = Inr chat"
    and "choices chat = c # cs"
  shows "fst (recommend_procurement env request) =
           Returned
             [(''material'', PStr (material_name request)),
              (''location'', PStr (location request)),
              (''budget'', PFloat (budget request)),
              (''recommendation'', content_val c),
              (''top_suppliers'', PList (map PDict ss))]"
proof -
  have "list_all has_fields ss"
    using get_supplier_data_shape [OF assms(1)] well_shaped_has_fields
    by (auto simp: list_all_iff)
  then have "\<exists>p. build_prompt env (material_name request) (quantity request)
      (location request) (budget request) ss = Inr p"
    by (rule build_prompt_fields)
  then obtain p where p: "build_prompt env (material_name request) (quantity request)
      (location request) (budget request) ss = Inr p"
    by (elim exE)
  have gen: "fst (generate_recommendation env (material_name request) (quantity request)
      (location request) (budget request) ss) = Inr c"
    by (simp add: generate_recommendation_def p assms(3,4))
  obtain calls where lookup:
    "get_supplier_data env (material_name request) (location request) = (Inr ss, calls)"
    using assms(1) by (cases "get_supplier_data env (material_name request) (location request)") simp
  obtain calls' where gen':
    "generate_recommendation env (material_name request) (quantity request)
       (location request) (budget request) ss = (Inr c, calls')"
    using gen by (cases "generate_recommendation env (material_name request) (quantity request)
       (location request) (budget request) ss") simp
  show ?thesis
    by (simp add: recommend_procurement_def lookup gen' assms(2))
qed

section \<open>Properties of supplier lookup\<close>

text \<open>
  C6. For every request, supplier lookup makes exactly one outbound call, a search whose
  query is the material name, the text " suppliers in " and the location, with the
  credential and \<open>num = 5\<close>; and the whole handler makes exactly one search call, the same
  one: there is no retry and no fetch of a second page.
\<close>

theorem one_search_call:
  "snd (get_supplier_data env mat loc) =
     [SearchCall \<lparr>q = mat @ '' suppliers in '' @ loc, api_key = SERPAPI_KEY env, num = 5\<rparr>] \<and>
   filter is_search (snd (recommend_procurement env request)) =
     [SearchCall \<lparr>q = material_name request @ '' suppliers in '' @ location request,
        api_key = SERPAPI_KEY env, num = 5\<rparr>]"
proof -
  have calls: "snd (get_supplier_data env m l) =
      [SearchCall \<lparr>q = m @ '' suppliers in '' @ l, api_key = SERPAPI_KEY env, num = 5\<rparr>]" for m l
    by (simp add: get_supplier_data_calls search_request_def search_query_def)
  have "filter is_search (snd (recommend_procurement env request)) =
      filter is_search (snd (get_supplier_data env (material_name request) (location request)))"
    by (auto simp: recommend_procurement_def split: prod.splits sum.splits
        dest: generate_recommendation_no_search_pair)
  then show ?thesis by (simp add: calls)
qed

text \<open>
  C3. When the outbound search call raises an exception with text \<open>t\<close>, supplier lookup
  raises an HTTPException with status 500 whose detail is "SERPAPI error: " followed by
  \<open>t\<close> verbatim, the handler ends with that exception, and the search call is the only
  outbound call: no completion is requested, so no recommendation is generated.
\<close>

theorem search_exception_is_500:
  assumes "get_dict env (search_request env (material_name request) (location request)) = Inl t"
  shows "fst (get_supplier_data env (material_name request) (location request)) =
           Inl (HTTPException 500 (''SERPAPI error: '' @ t)) \<and>
         fst (recommend_procurement env request) =
           RaisedHTTP (HTTPException 500 (''SERPAPI error: '' @ t)) \<and>
         filter is_completion (snd (recommend_procurement env request)) = []"
proof -
  have body: "try_body env (search_request env (material_name request) (location request)) =
      Inl (ProviderError t)"
    using assms by (rule try_body_raises)
  have lookup: "get_supplier_data env (material_name request) (location request) =
      (Inl (HTTPException 500 (''SERPAPI error: '' @ t)),
       [SearchCall (search_request env (material_name request) (location request))])"
    by (simp add: get_supplier_data_def Let_def body)
  show ?thesis
    by (simp add: recommend_procurement_def lookup)
qed

text \<open>
  C2. When the search provider returns a dictionary with no organic results (the key
  organic_results is absent, or its value is the empty list), the handler raises an
  HTTPException with status 404 and detail "No suppliers found.", and the search call is
  the only outbound call it makes: the completion provider is not invoked.
\<close>

theorem no_organic_results_is_404:
  assumes "get_dict env (search_request env (material_name request) (location request)) =
             Inr (PDict results)"
    and "map_of results ''organic_results'' = None \<or>
         map_of results ''organic_results'' = Some (PList [])"
  shows "recommend_procurement env request =
           (RaisedHTTP (HTTPException 404 ''No suppliers found.''),
            [SearchCall (search_request env (material_name request) (location request))]) \<and>
         filter is_completion (snd (recommend_procurement env request)) = []"
proof -
  have body: "try_body env (search_request env (material_name request) (location request)) = Inr []"
    using assms by (rule try_body_no_organic)
  have lookup: "get_supplier_data env (material_name request) (location request) =
      (Inr [], [SearchCall (search_request env (material_name request) (location request))])"
    by (simp add: get_supplier_data_def Let_def body)
  show ?thesis
    by (simp add: recommend_procurement_def lookup)
qed


theorem one_search_call_witness:
  "filter is_search
     (snd (recommend_procurement
        (fixed_env (search_answer_of three_results) (completion_answer_of (Some ''plan'')))
        scenario_request)) =
   [SearchCall \<lparr>q = ''copper cable suppliers in Pune'', api_key = Some ''key'', num = 5\<rparr>]"
  using one_search_call
    [of "fixed_env (search_answer_of three_results) (completion_answer_of (Some ''plan''))"
        "''copper cable''" "''Pune''" scenario_request]
  by (simp add: scenario_request_def fixed_env_simps)

theorem search_exception_is_500_witness:
  "get_dict (fixed_env (Inl ''connection refused'') (completion_answer_of (Some ''plan'')))
     (search_request (fixed_env (Inl ''connection refused'') (completion_answer_of (Some ''plan'')))
        (material_name scenario_request) (location scenario_request)) =
     Inl ''connection refused'' \<and>
   fst (recommend_procurement
          (fixed_env (Inl ''connection refused'') (completion_answer_of (Some ''plan'')))
          scenario_request) =
     RaisedHTTP (HTTPException 500 ''SERPAPI error: connection refused'') \<and>
   filter is_completion
     (snd (recommend_procurement
        (fixed_env (Inl ''connection refused'') (completion_answer_of (Some ''plan'')))
        scenario_request)) = []"
  using search_exception_is_500
    [of "fixed_env (Inl ''connection refused'') (completion_answer_of (Some ''plan''))"
        scenario_request "''connection refused''"]
  by (simp add: fixed_env_simps)

theorem no_organic_results_is_404_witness:
  "fst (recommend_procurement
          (fixed_env (search_answer_of []) (completion_answer_of (Some ''plan'')))
          scenario_request) =
     RaisedHTTP (HTTPException 404 ''No suppliers found.'') \<and>
   filter is_completion
     (snd (recommend_procurement
        (fixed_env (search_answer_of []) (completion_answer_of (Some ''plan'')))
        scenario_request)) = []"
  using no_organic_results_is_404
    [of "fixed_env (search_answer_of []) (completion_answer_of (Some ''plan''))"
        scenario_request "[(''organic_results'', PList [])]"]
  by (simp add: fixed_env_simps search_answer_of_def)

section \<open>Properties of the response\<close>

text \<open>
  C1. When the search provider returns a dictionary whose organic_results is a list of
  \<open>n\<close> result dictionaries, supplier lookup returns \<open>min 5 n\<close> suppliers, every 200 response
  carries exactly them as top_suppliers, and the title, link and snippet of the \<open>i\<close>-th
  entry are those of the \<open>i\<close>-th organic result, in the provider's order (None where the
  result has no such key). With \<open>n = 0\<close> there is no 200 response.
\<close>

theorem top_suppliers_follow_organic_results:
  assumes "get_dict env (search_request env (material_name request) (location request)) =
             Inr (PDict results)"
    and "map_of results ''organic_results'' = Some (PList (map PDict organic))"
    and "organic \<noteq> []"
    and "fst (recommend_procurement env request) = Returned resp"
  shows "\<exists>tops.
           fst (get_supplier_data env (material_name request) (location request)) = Inr tops \<and>
           map_of resp ''top_suppliers'' = Some (PList (map PDict tops)) \<and>
           length tops = min 5 (length organic) \<and>
           (\<forall>i<length tops. \<forall>k\<in>{''title'', ''link'', ''snippet''}.
              map_of (tops ! i) k =
                Some (case map_of (organic ! i) k of None \<Rightarrow> PNone | Some v \<Rightarrow> v))"
proof -
  let ?tops = "map supplier_of (take 5 organic)"
  have lookup: "fst (get_supplier_data env (material_name request) (location request)) = Inr ?tops"
    using assms(1,2) by (rule get_supplier_data_organic)
  from recommend_procurement_Returned [OF assms(4)] lookup
  have top: "map_of resp ''top_suppliers'' = Some (PList (map PDict ?tops))"
    by auto
  have len: "length ?tops = min 5 (length organic)"
    by simp
  have fields: "\<forall>i<length ?tops. \<forall>k\<in>{''title'', ''link'', ''snippet''}.
      map_of (?tops ! i) k = Some (case map_of (organic ! i) k of None \<Rightarrow> PNone | Some v \<Rightarrow> v)"
  proof (intro allI impI ballI)
    fix i k
    assume i: "i < length ?tops" and k: "k \<in> {''title'', ''link'', ''snippet''}"
    from i have "?tops ! i = supplier_of (organic ! i)" by simp
    then show "map_of (?tops ! i) k =
        Some (case map_of (organic ! i) k of None \<Rightarrow> PNone | Some v \<Rightarrow> v)"
      using supplier_of_field [OF k, of "organic ! i"] by simp
  qed
  from lookup top len fields show ?thesis by blast
qed


theorem top_suppliers_follow_organic_results_witness:
  "\<exists>resp tops.
     fst (recommend_procurement
            (fixed_env (search_answer_of six_results) (completion_answer_of (Some ''plan'')))
            scenario_request) = Returned resp \<and>
     map_of resp ''top_suppliers'' = Some (PList (map PDict tops)) \<and>
     length tops = 5 \<and>
     map_of (tops ! 4) ''title'' = Some (PStr ''e'') \<and>
     map_of (tops ! 4) ''snippet'' = Some PNone"
proof -
  let ?E = "fixed_env (search_answer_of six_results) (completion_answer_of (Some ''plan''))"
  let ?results = "[(''organic_results'', PList (map PDict six_results))]"
  have h1: "get_dict ?E (search_request ?E (material_name scenario_request)
      (location scenario_request)) = Inr (PDict ?results)"
    by (simp add: fixed_env_simps search_answer_of_def)
  have h2: "map_of ?results ''organic_results'' = Some (PList (map PDict six_results))"
    by simp
  have h3: "six_results \<noteq> []"
    by (simp add: six_results_def)
  have lookup: "fst (get_supplier_data ?E (material_name scenario_request)
      (location scenario_request)) = Inr (map supplier_of (take 5 six_results))"
    using h1 h2 by (rule get_supplier_data_organic)
  have ne: "map supplier_of (take 5 six_results) \<noteq> []"
    by (simp add: six_results_def)
  have "\<exists>resp. fst (recommend_procurement ?E scenario_request) = Returned resp"
    using recommend_procurement_success
      [OF lookup ne, of "\<lparr>choices = [Some ''plan'']\<rparr>" "Some ''plan''" "[]"]
    by (simp add: fixed_env_simps completion_answer_of_def)
  then obtain resp where h4: "fst (recommend_procurement ?E scenario_request) = Returned resp"
    by (elim exE)
  from top_suppliers_follow_organic_results [OF h1 h2 h3 h4] obtain tops where
    top: "map_of resp ''top_suppliers'' = Some (PList (map PDict tops))"
    and len: "length tops = min 5 (length six_results)"
    and fields: "\<forall>i<length tops. \<forall>k\<in>{''title'', ''link'', ''snippet''}.
      map_of (tops ! i) k =
        Some (case map_of (six_results ! i) k of None \<Rightarrow> PNone | Some v \<Rightarrow> v)"
    by (elim exE conjE)
  have len5: "length tops = 5"
    using len by (simp add: six_results_def)
  have fifth: "six_results ! 4 = [(''title'', PStr ''e'')]"
    by (simp add: six_results_def)
  from fields len5 have
    "map_of (tops ! 4) ''title'' =
       Some (case map_of (six_results ! 4) ''title'' of None \<Rightarrow> PNone | Some v \<Rightarrow> v)"
    "map_of (tops ! 4) ''snippet'' =
       Some (case map_of (six_results ! 4) ''snippet'' of None \<Rightarrow> PNone | Some v \<Rightarrow> v)"
    by simp_all
  then have "map_of (tops ! 4) ''title'' = Some (PStr ''e'')"
    and "map_of (tops ! 4) ''snippet'' = Some PNone"
    by (simp_all add: fifth)
  with h4 top len5 show ?thesis by blast
qed

text \<open>
  C5. Every 200 response is the dictionary with material, location and budget equal to
  the request's material_name, location and budget, with top_suppliers the very list
  that supplier lookup returned, and with recommendation the content of the first choice
  of the completion that the provider returned for the prompt: a string is passed on
  character by character, and a content of None is passed on as None.
\<close>

theorem response_echoes_request:
  assumes "fst (recommend_procurement env request) = Returned resp"
  shows "\<exists>suppliers p chat c cs.
           fst (get_supplier_data env (material_name request) (location request)) = Inr suppliers \<and>
           build_prompt env (material_name request) (quantity request) (location request)
             (budget request) suppliers = Inr p \<and>
           completions_create env (chat_request p) = Inr chat \<and>
           choices chat = c # cs \<and>
           resp =
             [(''material'', PStr (material_name request)),
              (''location'', PStr (location request)),
              (''budget'', PFloat (budget request)),
              (''recommendation'',
                 (case c of None \<Rightarrow> PNone | Some text \<Rightarrow> PStr text)),
              (''top_suppliers'', PList (map PDict suppliers))]"
proof -
  from recommend_procurement_Returned [OF assms] obtain suppliers c where
    lookup: "fst (get_supplier_data env (material_name request) (location request)) = Inr suppliers"
    and gen: "fst (generate_recommendation env (material_name request) (quantity request)
        (location request) (budget request) suppliers) = Inr c"
    and resp: "resp =
       [(''material'', PStr (material_name request)),
        (''location'', PStr (location request)),
        (''budget'', PFloat (budget request)),
        (''recommendation'', content_val c),
        (''top_suppliers'', PList (map PDict suppliers))]"
    by (elim exE conjE)
  from generate_recommendation_Inr [OF gen] obtain p chat cs where
    "build_prompt env (material_name request) (quantity request) (location request)
       (budget request) suppliers = Inr p"
    "completions_create env (chat_request p) = Inr chat"
    "choices chat = c # cs"
    by (elim exE conjE)
  with lookup resp show ?thesis
    unfolding content_val_def by blast
qed

theorem response_echoes_request_witness:
  "fst (recommend_procurement
          (fixed_env (search_answer_of three_results)
             (completion_answer_of (Some ''Order from Apex Cables.'')))
          scenario_request) =
   Returned
     [(''material'', PStr ''copper cable''),
      (''location'', PStr ''Pune''),
      (''budget'', PFloat 200000),
      (''recommendation'', PStr ''Order from Apex Cables.''),
      (''top_suppliers'', PList (map PDict three_suppliers))]"
proof -
  let ?E = "fixed_env (search_answer_of three_results)
      (completion_answer_of (Some ''Order from Apex Cables.''))"
  have lookup: "fst (get_supplier_data ?E (material_name scenario_request)
      (location scenario_request)) = Inr three_suppliers"
    by (rule lookup_three_results)
  have ne: "three_suppliers \<noteq> []"
    by (simp add: three_suppliers_def)
  have "\<exists>resp. fst (recommend_procurement ?E scenario_request) = Returned resp"
    using recommend_procurement_success
      [OF lookup ne, of "\<lparr>choices = [Some ''Order from Apex Cables.'']\<rparr>"
          "Some ''Order from Apex Cables.''" "[]"]
    by (simp add: fixed_env_simps completion_answer_of_def)
  then obtain resp where h: "fst (recommend_procurement ?E scenario_request) = Returned resp"
    by (elim exE)
  from response_echoes_request [OF h] obtain suppliers p chat c cs where
    s: "fst (get_supplier_data ?E (material_name scenario_request)
          (location scenario_request)) = Inr suppliers"
    and chat: "completions_create ?E (chat_request p) = Inr chat"
    and c: "choices chat = c # cs"
    and resp: "resp =
       [(''material'', PStr (material_name scenario_request)),
        (''location'', PStr (location scenario_request)),
        (''budget'', PFloat (budget scenario_request)),
        (''recommendation'', (case c of None \<Rightarrow> PNone | Some text \<Rightarrow> PStr text)),
        (''top_suppliers'', PList (map PDict suppliers))]"
    by (elim exE conjE)
  from s lookup have "suppliers = three_suppliers" by simp
  moreover from chat c have "c = Some ''Order from Apex Cables.''"
    by (auto simp: fixed_env_simps completion_answer_of_def)
  ultimately show ?thesis
    using h resp by (simp add: scenario_request_def)
qed

section \<open>Properties of the failure of the completion call\<close>

text \<open>
  C4. When supplier lookup has returned a non-empty list and the completion call made
  for the prompt raises an exception with text \<open>t\<close>, the handler ends with that very
  exception uncaught, after the search call and the one completion call: it does not
  return a response body, and it does not raise an HTTPException.
\<close>

theorem completion_exception_propagates:
  assumes "fst (get_supplier_data env (material_name request) (location request)) = Inr suppliers"
    and "suppliers \<noteq> []"
    and "build_prompt env (material_name request) (quantity request) (location request)
           (budget request) suppliers = Inr p"
    and "completions_create env (chat_request p) = Inl t"
  shows "recommend_procurement env request =
           (Uncaught (ProviderError t),
            [SearchCall (search_request env (material_name request) (location request)),
             CompletionCall (chat_request p)]) \<and>
         (\<nexists>resp. fst (recommend_procurement env request) = Returned resp) \<and>
         (\<nexists>h. fst (recommend_procurement env request) = RaisedHTTP h)"
proof -
  have lookup: "get_supplier_data env (material_name request) (location request) =
      (Inr suppliers, [SearchCall (search_request env (material_name request) (location request))])"
    using assms(1) get_supplier_data_calls [of env "material_name request" "location request"]
    by (simp add: prod_eq_iff)
  have gen: "generate_recommendation env (material_name request) (quantity request)
      (location request) (budget request) suppliers =
      (Inl (ProviderError t), [CompletionCall (chat_request p)])"
    by (simp add: generate_recommendation_def assms(3,4))
  have "recommend_procurement env request =
      (Uncaught (ProviderError t),
       [SearchCall (search_request env (material_name request) (location request)),
        CompletionCall (chat_request p)])"
    by (simp add: recommend_procurement_def lookup gen assms(2))
  then show ?thesis by simp
qed

theorem completion_exception_propagates_witness:
  "fst (recommend_procurement
          (fixed_env (search_answer_of three_results) (Inl ''rate limit reached''))
          scenario_request) = Uncaught (ProviderError ''rate limit reached'') \<and>
   length (filter is_completion
     (snd (recommend_procurement
        (fixed_env (search_answer_of three_results) (Inl ''rate limit reached''))
        scenario_request))) = 1"
proof -
  let ?E = "fixed_env (search_answer_of three_results) (Inl ''rate limit reached'')"
  have h1: "fst (get_supplier_data ?E (material_name scenario_request)
      (location scenario_request)) = Inr three_suppliers"
    by (rule lookup_three_results)
  have h2: "three_suppliers \<noteq> []"
    by (simp add: three_suppliers_def)
  have "\<exists>p. build_prompt ?E (material_name scenario_request) (quantity scenario_request)
      (location scenario_request) (budget scenario_request) three_suppliers = Inr p"
    using three_suppliers_fields by (rule build_prompt_fields)
  then obtain p where h3: "build_prompt ?E (material_name scenario_request)
      (quantity scenario_request) (location scenario_request) (budget scenario_request)
      three_suppliers = Inr p"
    by (elim exE)
  have h4: "completions_create ?E (chat_request p) = Inl ''rate limit reached''"
    by (simp add: fixed_env_simps)
  from completion_exception_propagates [OF h1 h2 h3 h4] show ?thesis
    by simp
qed


section \<open>Properties of the prompt\<close>

text \<open>
  C7. For all request fields and every list of suppliers that have the keys title, link
  and snippet, the recommendation generator makes exactly one outbound call, a completion
  call with the model "llama-3.1-8b-instant", temperature 0.7, at most 800 tokens, a fixed
  system message and one user message. The user message is the prompt: an empty first
  line, two lines of instruction, the material, quantity, location and budget on a line
  each, the heading of the supplier data, one line "- title: link (snippet)" for each
  supplier in order, the heading "Provide:" and the four numbered items of the list of
  requested outputs. The call is the same whether the provider then answers or raises.
\<close>

theorem one_fixed_format_completion_call:
  assumes "list_all has_fields suppliers"
  shows "\<exists>bullets.
           length bullets = length suppliers \<and>
           (\<forall>i<length suppliers. \<exists>t l n.
              map_of (suppliers ! i) ''title'' = Some t \<and>
              map_of (suppliers ! i) ''link'' = Some l \<and>
              map_of (suppliers ! i) ''snippet'' = Some n \<and>
              bullets ! i =
                ''- '' @ py_str env t @ '': '' @ py_str env l @ '' ('' @ py_str env n @ '')'') \<and>
           snd (generate_recommendation env mat qty loc bud suppliers) =
             [CompletionCall
                \<lparr>model = ''llama-3.1-8b-instant'',
                 messages =
                   [\<lparr>role = ''system'', content = ''You are an expert AI procurement assistant.''\<rparr>,
                    \<lparr>role = ''user'',
                     content =
                       concat (map (\<lambda>line. line @ [CHR 0x0A])
                         ['''',
                          ''    You are an AI procurement strategist for POWERGRID.'',
                          ''    Analyze the following inputs and recommend a procurement plan.'',
                          '''',
                          ''    Material: '' @ mat,
                          ''    Required Quantity: '' @ str_int qty,
                          ''    Project Location: '' @ loc,
                          ''    Budget: '' @ currency_mark @ py_str env (PFloat bud),
                          '''',
                          ''    Available supplier data:'',
                          ''    '' @ join [CHR 0x0A] bullets,
                          '''',
                          ''    Provide:'',
                          ''    1. Top 3 suppliers ranked by relevance.'',
                          ''    2. Recommended order quantity split (if applicable).'',
                          ''    3. Estimated total cost and delivery timeframe.'',
                          ''    4. Any risk factors or negotiation suggestions.'']) @
                       ''    ''\<rparr>],
                 temperature = 0.7,
                 max_tokens = 800\<rparr>]"
proof -
  from supplier_lines_fields [OF assms, of env] obtain bullets where
    lines: "supplier_lines env suppliers = Inr bullets"
    and len: "length bullets = length suppliers"
    and each: "\<forall>i<length suppliers. supplier_line env (suppliers ! i) = Inr (bullets ! i)"
    by (elim exE conjE)
  have shape: "\<forall>i<length suppliers. \<exists>t l n.
      map_of (suppliers ! i) ''title'' = Some t \<and>
      map_of (suppliers ! i) ''link'' = Some l \<and>
      map_of (suppliers ! i) ''snippet'' = Some n \<and>
      bullets ! i = ''- '' @ py_str env t @ '': '' @ py_str env l @ '' ('' @ py_str env n @ '')''"
  proof (intro allI impI)
    fix i
    assume i: "i < length suppliers"
    then have "has_fields (suppliers ! i)"
      using assms by (simp add: list_all_length)
    from supplier_line_fields [OF this, of env] each i show "\<exists>t l n.
      map_of (suppliers ! i) ''title'' = Some t \<and>
      map_of (suppliers ! i) ''link'' = Some l \<and>
      map_of (suppliers ! i) ''snippet'' = Some n \<and>
      bullets ! i = ''- '' @ py_str env t @ '': '' @ py_str env l @ '' ('' @ py_str env n @ '')''"
      by auto
  qed
  have prompt: "build_prompt env mat qty loc bud suppliers =
      Inr (prompt_template mat (str_int qty) loc (py_str env (PFloat bud)) (join nl bullets))"
    by (simp add: build_prompt_def lines)
  have calls: "snd (generate_recommendation env mat qty loc bud suppliers) =
      [CompletionCall (chat_request
         (prompt_template mat (str_int qty) loc (py_str env (PFloat bud)) (join nl bullets)))]"
    by (simp add: generate_recommendation_def prompt split: sum.splits list.splits)
  have "snd (generate_recommendation env mat qty loc bud suppliers) =
             [CompletionCall
                \<lparr>model = ''llama-3.1-8b-instant'',
                 messages =
                   [\<lparr>role = ''system'', content = ''You are an expert AI procurement assistant.''\<rparr>,
                    \<lparr>role = ''user'',
                     content =
                       concat (map (\<lambda>line. line @ [CHR 0x0A])
                         ['''',
                          ''    You are an AI procurement strategist for POWERGRID.'',
                          ''    Analyze the following inputs and recommend a procurement plan.'',
                          '''',
                          ''    Material: '' @ mat,
                          ''    Required Quantity: '' @ str_int qty,
                          ''    Project Location: '' @ loc,
                          ''    Budget: '' @ currency_mark @ py_str env (PFloat bud),
                          '''',
                          ''    Available supplier data:'',
                          ''    '' @ join [CHR 0x0A] bullets,
                          '''',
                          ''    Provide:'',
                          ''    1. Top 3 suppliers ranked by relevance.'',
                          ''    2. Recommended order quantity split (if applicable).'',
                          ''    3. Estimated total cost and delivery timeframe.'',
                          ''    4. Any risk factors or negotiation suggestions.'']) @
                       ''    ''\<rparr>],
                 temperature = 0.7,
                 max_tokens = 800\<rparr>]"
    unfolding calls by (simp add: chat_request_def prompt_template_def nl_def)
  with len shape show ?thesis by blast
qed


theorem one_fixed_format_completion_call_witness:
  "snd (generate_recommendation
          (fixed_env (search_answer_of three_results) (completion_answer_of (Some ''plan'')))
          ''copper cable'' 500 ''Pune'' 200000 three_suppliers) =
     [CompletionCall
        \<lparr>model = ''llama-3.1-8b-instant'',
         messages =
           [\<lparr>role = ''system'', content = ''You are an expert AI procurement assistant.''\<rparr>,
            \<lparr>role = ''user'',
             content =
               concat (map (\<lambda>line. line @ [CHR 0x0A])
                 ['''',
                  ''    You are an AI procurement strategist for POWERGRID.'',
                  ''    Analyze the following inputs and recommend a procurement plan.'',
                  '''',
                  ''    Material: copper cable'',
                  ''    Required Quantity: 500'',
                  ''    Project Location: Pune'',
                  ''    Budget: '' @ currency_mark @ ''200000.0'',
                  '''',
                  ''    Available supplier data:'',
                  ''    - Apex Cables: https://apex.example (Copper cable maker)'',
                  ''- Pune Wires: https://wires.example (None)'',
                  ''- None: https://third.example (None)'',
                  '''',
                  ''    Provide:'',
                  ''    1. Top 3 suppliers ranked by relevance.'',
                  ''    2. Recommended order quantity split (if applicable).'',
                  ''    3. Estimated total cost and delivery timeframe.'',
                  ''    4. Any risk factors or negotiation suggestions.'']) @
               ''    ''\<rparr>],
         temperature = 0.7,
         max_tokens = 800\<rparr>]"
proof -
  let ?E = "fixed_env (search_answer_of three_results) (completion_answer_of (Some ''plan''))"
  from one_fixed_format_completion_call
    [OF three_suppliers_fields, of ?E "''copper cable''" 500 "''Pune''" 200000]
  obtain bullets where
    len: "length bullets = length three_suppliers"
    and each: "\<forall>i<length three_suppliers. \<exists>t l n.
      map_of (three_suppliers ! i) ''title'' = Some t \<and>
      map_of (three_suppliers ! i) ''link'' = Some l \<and>
      map_of (three_suppliers ! i) ''snippet'' = Some n \<and>
      bullets ! i = ''- '' @ py_str ?E t @ '': '' @ py_str ?E l @ '' ('' @ py_str ?E n @ '')''"
    and calls: "snd (generate_recommendation ?E ''copper cable'' 500 ''Pune'' 200000
        three_suppliers) =
      [CompletionCall
        \<lparr>model = ''llama-3.1-8b-instant'',
         messages =
           [\<lparr>role = ''system'', content = ''You are an expert AI procurement assistant.''\<rparr>,
            \<lparr>role = ''user'',
             content =
               concat (map (\<lambda>line. line @ [CHR 0x0A])
                 ['''',
                  ''    You are an AI procurement strategist for POWERGRID.'',
                  ''    Analyze the following inputs and recommend a procurement plan.'',
                  '''',
                  ''    Material: '' @ ''copper cable'',
                  ''    Required Quantity: '' @ str_int 500,
                  ''    Project Location: '' @ ''Pune'',
                  ''    Budget: '' @ currency_mark @ py_str ?E (PFloat 200000),
                  '''',
                  ''    Available supplier data:'',
                  ''    '' @ join [CHR 0x0A] bullets,
                  '''',
                  ''    Provide:'',
                  ''    1. Top 3 suppliers ranked by relevance.'',
                  ''    2. Recommended order quantity split (if applicable).'',
                  ''    3. Estimated total cost and delivery timeframe.'',
                  ''    4. Any risk factors or negotiation suggestions.'']) @
               ''    ''\<rparr>],
         temperature = 0.7,
         max_tokens = 800\<rparr>]"
    by (elim exE conjE)
  have three: "length three_suppliers = 3"
    by (simp add: three_suppliers_def)
  from len three obtain b0 b1 b2 where bullets: "bullets = [b0, b1, b2]"
    by (auto simp: numeral_3_eq_3 length_Suc_conv)
  from each three have
    "\<exists>t l n. map_of (three_suppliers ! 0) ''title'' = Some t \<and>
       map_of (three_suppliers ! 0) ''link'' = Some l \<and>
       map_of (three_suppliers ! 0) ''snippet'' = Some n \<and>
       bullets ! 0 = ''- '' @ py_str ?E t @ '': '' @ py_str ?E l @ '' ('' @ py_str ?E n @ '')''"
    "\<exists>t l n. map_of (three_suppliers ! 1) ''title'' = Some t \<and>
       map_of (three_suppliers ! 1) ''link'' = Some l \<and>
       map_of (three_suppliers ! 1) ''snippet'' = Some n \<and>
       bullets ! 1 = ''- '' @ py_str ?E t @ '': '' @ py_str ?E l @ '' ('' @ py_str ?E n @ '')''"
    "\<exists>t l n. map_of (three_suppliers ! 2) ''title'' = Some t \<and>
       map_of (three_suppliers ! 2) ''link'' = Some l \<and>
       map_of (three_suppliers ! 2) ''snippet'' = Some n \<and>
       bullets ! 2 = ''- '' @ py_str ?E t @ '': '' @ py_str ?E l @ '' ('' @ py_str ?E n @ '')''"
    by simp_all
  then have
    "b0 = ''- Apex Cables: https://apex.example (Copper cable maker)''"
    "b1 = ''- Pune Wires: https://wires.example (None)''"
    "b2 = ''- None: https://third.example (None)''"
    by (auto simp: bullets three_suppliers_def)
  with bullets have summary: "join [CHR 0x0A] bullets =
      ''- Apex Cables: https://apex.example (Copper cable maker)'' @ [CHR 0x0A] @
      ''- Pune Wires: https://wires.example (None)'' @ [CHR 0x0A] @
      ''- None: https://third.example (None)''"
    by simp
  have qty: "str_int 500 = ''500''"
    by (simp add: str_int_def str_nat.simps digit_char_def)
  have bud: "py_str ?E (PFloat 200000) = ''200000.0''"
    by (simp add: fixed_env_def)
  show ?thesis
    unfolding calls summary qty bud by simp
qed

text \<open>
  C10. Every supplier that supplier lookup returns is a dictionary with exactly the keys
  title, link and snippet, and where an organic result omits one of these keys the
  supplier holds None under it rather than lacking the key. Building the prompt from such
  a list never fails: the prompt is the template filled with the request fields and with
  one line per supplier, joined by newlines, the line of the \<open>i\<close>-th supplier being
  "- title: link (snippet)" with the texts of its three values. When the suppliers come
  from a list of organic results, each of these texts is the text of the result's value
  under the key, and the text "None" where the result omits the key.
\<close>

theorem absent_fields_are_None:
  assumes "fst (get_supplier_data env mat loc) = Inr suppliers"
  shows "(\<forall>s\<in>set suppliers. \<exists>t k n. s = [(''title'', t), (''link'', k), (''snippet'', n)]) \<and>
         (\<exists>lns.
            length lns = length suppliers \<and>
            build_prompt env m qty l b suppliers =
              Inr (prompt_template m (str_int qty) l (py_str env (PFloat b)) (join nl lns)) \<and>
            (\<forall>i<length suppliers. \<exists>t k n.
               suppliers ! i = [(''title'', t), (''link'', k), (''snippet'', n)] \<and>
               lns ! i =
                 ''- '' @ py_str env t @ '': '' @ py_str env k @ '' ('' @ py_str env n @ '')'') \<and>
            (\<forall>results organic.
               get_dict env (search_request env mat loc) = Inr (PDict results) \<longrightarrow>
               map_of results ''organic_results'' = Some (PList (map PDict organic)) \<longrightarrow>
               (\<forall>i<length suppliers.
                  (\<forall>key\<in>{''title'', ''link'', ''snippet''}.
                     map_of (organic ! i) key = None \<longrightarrow>
                     map_of (suppliers ! i) key = Some PNone) \<and>
                  lns ! i =
                    ''- '' @
                    (case map_of (organic ! i) ''title'' of
                       None \<Rightarrow> ''None'' | Some v \<Rightarrow> py_str env v) @
                    '': '' @
                    (case map_of (organic ! i) ''link'' of
                       None \<Rightarrow> ''None'' | Some v \<Rightarrow> py_str env v) @
                    '' ('' @
                    (case map_of (organic ! i) ''snippet'' of
                       None \<Rightarrow> ''None'' | Some v \<Rightarrow> py_str env v) @
                    '')'')))"
proof -
  have shaped: "list_all well_shaped suppliers"
    using assms by (rule get_supplier_data_shape)
  have keys: "\<forall>s\<in>set suppliers. \<exists>t k n. s = [(''title'', t), (''link'', k), (''snippet'', n)]"
    using shaped by (auto simp: list_all_iff dest: well_shaped_cases)
  have "list_all has_fields suppliers"
    using shaped well_shaped_has_fields by (auto simp: list_all_iff)
  from supplier_lines_fields [OF this, of env] obtain lns where
    lines: "supplier_lines env suppliers = Inr lns"
    and len: "length lns = length suppliers"
    and each: "\<forall>i<length suppliers. supplier_line env (suppliers ! i) = Inr (lns ! i)"
    by (elim exE conjE)
  have prompt: "build_prompt env m qty l b suppliers =
      Inr (prompt_template m (str_int qty) l (py_str env (PFloat b)) (join nl lns))"
    by (simp add: build_prompt_def lines)
  have line_of: "\<forall>i<length suppliers. \<exists>t k n.
      suppliers ! i = [(''title'', t), (''link'', k), (''snippet'', n)] \<and>
      lns ! i = ''- '' @ py_str env t @ '': '' @ py_str env k @ '' ('' @ py_str env n @ '')''"
  proof (intro allI impI)
    fix i
    assume i: "i < length suppliers"
    then have "suppliers ! i \<in> set suppliers" by simp
    with keys obtain t k n where
      s: "suppliers ! i = [(''title'', t), (''link'', k), (''snippet'', n)]"
      by blast
    from each i have "supplier_line env (suppliers ! i) = Inr (lns ! i)" by blast
    then have "lns ! i = ''- '' @ py_str env t @ '': '' @ py_str env k @ '' ('' @ py_str env n @ '')''"
      by (simp add: s supplier_line_def subscript_def)
    with s show "\<exists>t k n.
      suppliers ! i = [(''title'', t), (''link'', k), (''snippet'', n)] \<and>
      lns ! i = ''- '' @ py_str env t @ '': '' @ py_str env k @ '' ('' @ py_str env n @ '')''"
      by blast
  qed
  have from_organic: "\<forall>results organic.
      get_dict env (search_request env mat loc) = Inr (PDict results) \<longrightarrow>
      map_of results ''organic_results'' = Some (PList (map PDict organic)) \<longrightarrow>
      (\<forall>i<length suppliers.
         (\<forall>key\<in>{''title'', ''link'', ''snippet''}.
            map_of (organic ! i) key = None \<longrightarrow> map_of (suppliers ! i) key = Some PNone) \<and>
         lns ! i =
           ''- '' @
           (case map_of (organic ! i) ''title'' of None \<Rightarrow> ''None'' | Some v \<Rightarrow> py_str env v) @
           '': '' @
           (case map_of (organic ! i) ''link'' of None \<Rightarrow> ''None'' | Some v \<Rightarrow> py_str env v) @
           '' ('' @
           (case map_of (organic ! i) ''snippet'' of None \<Rightarrow> ''None'' | Some v \<Rightarrow> py_str env v) @
           '')'')"
  proof (intro allI impI)
    fix results organic i
    assume search: "get_dict env (search_request env mat loc) = Inr (PDict results)"
      and organic: "map_of results ''organic_results'' = Some (PList (map PDict organic))"
      and i: "i < length suppliers"
    from get_supplier_data_organic [OF search organic] assms
    have "suppliers = map supplier_of (take 5 organic)" by simp
    with i have s: "suppliers ! i = supplier_of (organic ! i)" by simp
    have absent: "\<forall>key\<in>{''title'', ''link'', ''snippet''}.
        map_of (organic ! i) key = None \<longrightarrow> map_of (suppliers ! i) key = Some PNone"
    proof (intro ballI impI)
      fix key
      assume key: "key \<in> {''title'', ''link'', ''snippet''}"
        and none: "map_of (organic ! i) key = None"
      show "map_of (suppliers ! i) key = Some PNone"
        using supplier_of_field [OF key, of "organic ! i"] none by (simp add: s)
    qed
    have text_of: "py_str env (res_get d key) =
        (case map_of d key of None \<Rightarrow> ''None'' | Some v \<Rightarrow> py_str env v)" for d key
      by (simp add: res_get_def split: option.splits)
    from each i have "supplier_line env (suppliers ! i) = Inr (lns ! i)"
      by blast
    then have "supplier_line env (supplier_of (organic ! i)) = Inr (lns ! i)"
      by (simp only: s)
    then have "lns ! i =
        ''- '' @ py_str env (res_get (organic ! i) ''title'') @ '': '' @
        py_str env (res_get (organic ! i) ''link'') @ '' ('' @
        py_str env (res_get (organic ! i) ''snippet'') @ '')''"
      by (simp add: supplier_of_def supplier_line_def subscript_def)
    then have "lns ! i =
        ''- '' @
        (case map_of (organic ! i) ''title'' of None \<Rightarrow> ''None'' | Some v \<Rightarrow> py_str env v) @
        '': '' @
        (case map_of (organic ! i) ''link'' of None \<Rightarrow> ''None'' | Some v \<Rightarrow> py_str env v) @
        '' ('' @
        (case map_of (organic ! i) ''snippet'' of None \<Rightarrow> ''None'' | Some v \<Rightarrow> py_str env v) @
        '')''"
      by (simp only: text_of)
    with absent show "(\<forall>key\<in>{''title'', ''link'', ''snippet''}.
            map_of (organic ! i) key = None \<longrightarrow> map_of (suppliers ! i) key = Some PNone) \<and>
         lns ! i =
           ''- '' @
           (case map_of (organic ! i) ''title'' of None \<Rightarrow> ''None'' | Some v \<Rightarrow> py_str env v) @
           '': '' @
           (case map_of (organic ! i) ''link'' of None \<Rightarrow> ''None'' | Some v \<Rightarrow> py_str env v) @
           '' ('' @
           (case map_of (organic ! i) ''snippet'' of None \<Rightarrow> ''None'' | Some v \<Rightarrow> py_str env v) @
           '')''"
      by (rule conjI)
  qed
  from len prompt line_of from_organic
  have "\<exists>lns.
      length lns = length suppliers \<and>
      build_prompt env m qty l b suppliers =
        Inr (prompt_template m (str_int qty) l (py_str env (PFloat b)) (join nl lns)) \<and>
      (\<forall>i<length suppliers. \<exists>t k n.
         suppliers ! i = [(''title'', t), (''link'', k), (''snippet'', n)] \<and>
         lns ! i = ''- '' @ py_str env t @ '': '' @ py_str env k @ '' ('' @ py_str env n @ '')'') \<and>
      (\<forall>results organic.
         get_dict env (search_request env mat loc) = Inr (PDict results) \<longrightarrow>
         map_of results ''organic_results'' = Some (PList (map PDict organic)) \<longrightarrow>
         (\<forall>i<length suppliers.
            (\<forall>key\<in>{''title'', ''link'', ''snippet''}.
               map_of (organic ! i) key = None \<longrightarrow> map_of (suppliers ! i) key = Some PNone) \<and>
            lns ! i =
              ''- '' @
              (case map_of (organic ! i) ''title'' of None \<Rightarrow> ''None'' | Some v \<Rightarrow> py_str env v) @
              '': '' @
              (case map_of (organic ! i) ''link'' of None \<Rightarrow> ''None'' | Some v \<Rightarrow> py_str env v) @
              '' ('' @
              (case map_of (organic ! i) ''snippet'' of None \<Rightarrow> ''None'' | Some v \<Rightarrow> py_str env v) @
              '')''))"
    by (intro exI [of _ lns] conjI)
  with keys show ?thesis by (rule conjI)
qed


theorem absent_fields_are_None_witness:
  "fst (get_supplier_data
          (fixed_env (search_answer_of three_results) (completion_answer_of (Some ''plan'')))
          ''copper cable'' ''Pune'') = Inr three_suppliers \<and>
   map_of (three_suppliers ! 1) ''snippet'' = Some PNone \<and>
   map_of (three_suppliers ! 2) ''title'' = Some PNone \<and>
   build_prompt
     (fixed_env (search_answer_of three_results) (completion_answer_of (Some ''plan'')))
     ''copper cable'' 500 ''Pune'' 200000 three_suppliers =
     Inr (prompt_template ''copper cable'' ''500'' ''Pune'' ''200000.0''
            (''- Apex Cables: https://apex.example (Copper cable maker)'' @ [CHR 0x0A] @
             ''- Pune Wires: https://wires.example (None)'' @ [CHR 0x0A] @
             ''- None: https://third.example (None)''))"
proof -
  let ?E = "fixed_env (search_answer_of three_results) (completion_answer_of (Some ''plan''))"
  let ?results = "[(''organic_results'', PList (map PDict three_results))]"
  have h: "fst (get_supplier_data ?E ''copper cable'' ''Pune'') = Inr three_suppliers"
    by (rule lookup_three_results)
  have search: "get_dict ?E (search_request ?E ''copper cable'' ''Pune'') = Inr (PDict ?results)"
    by (simp add: fixed_env_simps search_answer_of_def)
  have organic: "map_of ?results ''organic_results'' = Some (PList (map PDict three_results))"
    by simp
  from absent_fields_are_None [OF h, of "''copper cable''" 500 "''Pune''" 200000]
  obtain lns where
    len: "length lns = length three_suppliers"
    and prompt: "build_prompt ?E ''copper cable'' 500 ''Pune'' 200000 three_suppliers =
      Inr (prompt_template ''copper cable'' (str_int 500) ''Pune'' (py_str ?E (PFloat 200000))
             (join nl lns))"
    and from_organic: "\<forall>results organic.
      get_dict ?E (search_request ?E ''copper cable'' ''Pune'') = Inr (PDict results) \<longrightarrow>
      map_of results ''organic_results'' = Some (PList (map PDict organic)) \<longrightarrow>
      (\<forall>i<length three_suppliers.
         (\<forall>key\<in>{''title'', ''link'', ''snippet''}.
            map_of (organic ! i) key = None \<longrightarrow> map_of (three_suppliers ! i) key = Some PNone) \<and>
         lns ! i =
           ''- '' @
           (case map_of (organic ! i) ''title'' of None \<Rightarrow> ''None'' | Some v \<Rightarrow> py_str ?E v) @
           '': '' @
           (case map_of (organic ! i) ''link'' of None \<Rightarrow> ''None'' | Some v \<Rightarrow> py_str ?E v) @
           '' ('' @
           (case map_of (organic ! i) ''snippet'' of None \<Rightarrow> ''None'' | Some v \<Rightarrow> py_str ?E v) @
           '')'')"
    by (elim exE conjE)
  from from_organic search organic have each:
    "\<forall>i<length three_suppliers.
       (\<forall>key\<in>{''title'', ''link'', ''snippet''}.
          map_of (three_results ! i) key = None \<longrightarrow> map_of (three_suppliers ! i) key = Some PNone) \<and>
       lns ! i =
         ''- '' @
         (case map_of (three_results ! i) ''title'' of None \<Rightarrow> ''None'' | Some v \<Rightarrow> py_str ?E v) @
         '': '' @
         (case map_of (three_results ! i) ''link'' of None \<Rightarrow> ''None'' | Some v \<Rightarrow> py_str ?E v) @
         '' ('' @
         (case map_of (three_results ! i) ''snippet'' of None \<Rightarrow> ''None'' | Some v \<Rightarrow> py_str ?E v) @
         '')''"
    by blast
  have three: "length three_suppliers = 3"
    by (simp add: three_suppliers_def)
  from each three have e0:
    "lns ! 0 =
       ''- '' @
       (case map_of (three_results ! 0) ''title'' of None \<Rightarrow> ''None'' | Some v \<Rightarrow> py_str ?E v) @
       '': '' @
       (case map_of (three_results ! 0) ''link'' of None \<Rightarrow> ''None'' | Some v \<Rightarrow> py_str ?E v) @
       '' ('' @
       (case map_of (three_results ! 0) ''snippet'' of None \<Rightarrow> ''None'' | Some v \<Rightarrow> py_str ?E v) @
       '')''"
    by simp
  from each three have e1:
    "(\<forall>key\<in>{''title'', ''link'', ''snippet''}.
        map_of (three_results ! 1) key = None \<longrightarrow> map_of (three_suppliers ! 1) key = Some PNone) \<and>
     lns ! 1 =
       ''- '' @
       (case map_of (three_results ! 1) ''title'' of None \<Rightarrow> ''None'' | Some v \<Rightarrow> py_str ?E v) @
       '': '' @
       (case map_of (three_results ! 1) ''link'' of None \<Rightarrow> ''None'' | Some v \<Rightarrow> py_str ?E v) @
       '' ('' @
       (case map_of (three_results ! 1) ''snippet'' of None \<Rightarrow> ''None'' | Some v \<Rightarrow> py_str ?E v) @
       '')''"
    by simp
  from each three have e2:
    "(\<forall>key\<in>{''title'', ''link'', ''snippet''}.
        map_of (three_results ! 2) key = None \<longrightarrow> map_of (three_suppliers ! 2) key = Some PNone) \<and>
     lns ! 2 =
       ''- '' @
       (case map_of (three_results ! 2) ''title'' of None \<Rightarrow> ''None'' | Some v \<Rightarrow> py_str ?E v) @
       '': '' @
       (case map_of (three_results ! 2) ''link'' of None \<Rightarrow> ''None'' | Some v \<Rightarrow> py_str ?E v) @
       '' ('' @
       (case map_of (three_results ! 2) ''snippet'' of None \<Rightarrow> ''None'' | Some v \<Rightarrow> py_str ?E v) @
       '')''"
    by simp
  have l0: "lns ! 0 = ''- Apex Cables: https://apex.example (Copper cable maker)''"
    using e0 by (simp add: three_results_def)
  have l1: "lns ! 1 = ''- Pune Wires: https://wires.example (None)''"
    and none1: "map_of (three_suppliers ! 1) ''snippet'' = Some PNone"
    using e1 by (simp_all add: three_results_def)
  have l2: "lns ! 2 = ''- None: https://third.example (None)''"
    and none2: "map_of (three_suppliers ! 2) ''title'' = Some PNone"
    using e2 by (simp_all add: three_results_def)
  from len three obtain b0 b1 b2 where lns: "lns = [b0, b1, b2]"
    by (auto simp: numeral_3_eq_3 length_Suc_conv)
  from l0 l1 l2 have summary: "join nl lns =
      ''- Apex Cables: https://apex.example (Copper cable maker)'' @ [CHR 0x0A] @
      ''- Pune Wires: https://wires.example (None)'' @ [CHR 0x0A] @
      ''- None: https://third.example (None)''"
    by (simp add: lns nl_def)
  have qty: "str_int 500 = ''500''"
    by (simp add: str_int_def str_nat.simps digit_char_def)
  have bud: "py_str ?E (PFloat 200000) = ''200000.0''"
    by (simp add: fixed_env_def)
  from prompt have "build_prompt ?E ''copper cable'' 500 ''Pune'' 200000 three_suppliers =
     Inr (prompt_template ''copper cable'' ''500'' ''Pune'' ''200000.0''
            (''- Apex Cables: https://apex.example (Copper cable maker)'' @ [CHR 0x0A] @
             ''- Pune Wires: https://wires.example (None)'' @ [CHR 0x0A] @
             ''- None: https://third.example (None)''))"
    by (simp only: summary qty bud)
  with h none1 none2 show ?thesis by simp
qed


section \<open>The scenario of the spec\<close>

text \<open>
  C9, as the code has it. For the request with material_name "copper cable", quantity
  500, location "Pune" and a budget \<open>bud\<close> (the float 200000 in the scenario), and a search
  provider that returns three organic results, every 200 response has three
  top_suppliers, material "copper cable", location "Pune", budget \<open>bud\<close>, and as
  recommendation the content of the first choice of the completion. The recommendation is
  a non-empty string exactly when that content is one: the code does not check it.
\<close>

theorem scenario_response:
  assumes "get_dict env (search_request env ''copper cable'' ''Pune'') = Inr (PDict results)"
    and "map_of results ''organic_results'' = Some (PList [PDict r1, PDict r2, PDict r3])"
    and "fst (recommend_procurement env
           \<lparr>material_name = ''copper cable'', quantity = 500, location = ''Pune'', budget = bud\<rparr>) =
         Returned resp"
  shows "\<exists>tops p chat c cs.
           map_of resp ''top_suppliers'' = Some (PList tops) \<and>
           length tops = 3 \<and>
           map_of resp ''material'' = Some (PStr ''copper cable'') \<and>
           map_of resp ''location'' = Some (PStr ''Pune'') \<and>
           map_of resp ''budget'' = Some (PFloat bud) \<and>
           completions_create env (chat_request p) = Inr chat \<and>
           choices chat = c # cs \<and>
           map_of resp ''recommendation'' =
             Some (case c of None \<Rightarrow> PNone | Some text \<Rightarrow> PStr text) \<and>
           ((\<exists>s. map_of resp ''recommendation'' = Some (PStr s) \<and> s \<noteq> []) \<longleftrightarrow>
            (\<exists>s. c = Some s \<and> s \<noteq> []))"
proof -
  let ?request =
    "\<lparr>material_name = ''copper cable'', quantity = 500, location = ''Pune'', budget = bud\<rparr>"
  have lookup: "fst (get_supplier_data env ''copper cable'' ''Pune'') =
      Inr (map supplier_of (take 5 [r1, r2, r3]))"
    using assms(1) get_supplier_data_organic [of env "''copper cable''" "''Pune''" results "[r1, r2, r3]"]
      assms(2) by simp
  from recommend_procurement_Returned [OF assms(3)] obtain suppliers c where
    s: "fst (get_supplier_data env ''copper cable'' ''Pune'') = Inr suppliers"
    and gen: "fst (generate_recommendation env ''copper cable'' 500 ''Pune'' bud suppliers) = Inr c"
    and resp: "resp =
       [(''material'', PStr ''copper cable''),
        (''location'', PStr ''Pune''),
        (''budget'', PFloat bud),
        (''recommendation'', content_val c),
        (''top_suppliers'', PList (map PDict suppliers))]"
    by auto
  from generate_recommendation_Inr [OF gen] obtain p chat cs where
    chat: "completions_create env (chat_request p) = Inr chat" "choices chat = c # cs"
    by (elim exE conjE)
  from s lookup have three: "length (map PDict suppliers) = 3" by auto
  have rec: "map_of resp ''recommendation'' =
      Some (case c of None \<Rightarrow> PNone | Some text \<Rightarrow> PStr text)"
    by (simp add: resp content_val_def)
  have nonempty: "(\<exists>s. map_of resp ''recommendation'' = Some (PStr s) \<and> s \<noteq> []) \<longleftrightarrow>
      (\<exists>s. c = Some s \<and> s \<noteq> [])"
    unfolding rec by (cases c) auto
  have "map_of resp ''top_suppliers'' = Some (PList (map PDict suppliers))"
    "map_of resp ''material'' = Some (PStr ''copper cable'')"
    "map_of resp ''location'' = Some (PStr ''Pune'')"
    "map_of resp ''budget'' = Some (PFloat bud)"
    by (simp_all add: resp)
  with three chat rec nonempty show ?thesis by blast
qed


theorem scenario_response_witness:
  "\<exists>resp tops.
     fst (recommend_procurement
            (fixed_env (search_answer_of three_results)
               (completion_answer_of (Some ''Order from Apex Cables.'')))
            scenario_request) = Returned resp \<and>
     map_of resp ''top_suppliers'' = Some (PList tops) \<and>
     length tops = 3 \<and>
     map_of resp ''material'' = Some (PStr ''copper cable'') \<and>
     map_of resp ''location'' = Some (PStr ''Pune'') \<and>
     map_of resp ''budget'' = Some (PFloat 200000) \<and>
     map_of resp ''recommendation'' = Some (PStr ''Order from Apex Cables.'')"
proof -
  let ?E = "fixed_env (search_answer_of three_results)
      (completion_answer_of (Some ''Order from Apex Cables.''))"
  let ?results = "[(''organic_results'', PList (map PDict three_results))]"
  obtain r1 r2 r3 where rs: "three_results = [r1, r2, r3]"
    by (simp add: three_results_def)
  have h1: "get_dict ?E (search_request ?E ''copper cable'' ''Pune'') = Inr (PDict ?results)"
    by (simp add: fixed_env_simps search_answer_of_def)
  have h2: "map_of ?results ''organic_results'' = Some (PList [PDict r1, PDict r2, PDict r3])"
    by (simp add: rs)
  have lookup: "fst (get_supplier_data ?E (material_name scenario_request)
      (location scenario_request)) = Inr three_suppliers"
    by (rule lookup_three_results)
  have ne: "three_suppliers \<noteq> []"
    by (simp add: three_suppliers_def)
  have "\<exists>resp. fst (recommend_procurement ?E scenario_request) = Returned resp"
    using recommend_procurement_success
      [OF lookup ne, of "\<lparr>choices = [Some ''Order from Apex Cables.'']\<rparr>"
          "Some ''Order from Apex Cables.''" "[]"]
    by (simp add: fixed_env_simps completion_answer_of_def)
  then obtain resp where h3: "fst (recommend_procurement ?E
      \<lparr>material_name = ''copper cable'', quantity = 500, location = ''Pune'', budget = 200000\<rparr>) =
      Returned resp"
    unfolding scenario_request_def by (elim exE)
  from scenario_response [OF h1 h2 h3] obtain tops p chat c cs where
    facts: "map_of resp ''top_suppliers'' = Some (PList tops)" "length tops = 3"
      "map_of resp ''material'' = Some (PStr ''copper cable'')"
      "map_of resp ''location'' = Some (PStr ''Pune'')"
      "map_of resp ''budget'' = Some (PFloat 200000)"
    and chat: "completions_create ?E (chat_request p) = Inr chat" "choices chat = c # cs"
    and rec: "map_of resp ''recommendation'' =
      Some (case c of None \<Rightarrow> PNone | Some text \<Rightarrow> PStr text)"
    by (elim exE conjE)
  from chat have "c = Some ''Order from Apex Cables.''"
    by (auto simp: fixed_env_simps completion_answer_of_def)
  with rec have "map_of resp ''recommendation'' = Some (PStr ''Order from Apex Cables.'')"
    by simp
  with h3 facts show ?thesis
    unfolding scenario_request_def by blast
qed

text \<open>
  The claim C9 as the spec states it fails: in the scenario, with three organic results
  and a completion whose first choice has the empty string as content, the handler
  returns a 200 response whose recommendation is the empty string.
\<close>

theorem scenario_empty_recommendation:
  "fst (recommend_procurement
          (fixed_env (search_answer_of three_results) (completion_answer_of (Some '''')))
          scenario_request) =
   Returned
     [(''material'', PStr ''copper cable''),
      (''location'', PStr ''Pune''),
      (''budget'', PFloat 200000),
      (''recommendation'', PStr ''''),
      (''top_suppliers'', PList (map PDict three_suppliers))]"
proof -
  let ?E = "fixed_env (search_answer_of three_results) (completion_answer_of (Some ''''))"
  have lookup: "fst (get_supplier_data ?E (material_name scenario_request)
      (location scenario_request)) = Inr three_suppliers"
    by (rule lookup_three_results)
  have ne: "three_suppliers \<noteq> []"
    by (simp add: three_suppliers_def)
  show ?thesis
    using recommend_procurement_success
      [OF lookup ne, of "\<lparr>choices = [Some '''']\<rparr>" "Some ''''" "[]"]
    by (simp add: fixed_env_simps completion_answer_of_def scenario_request_def content_val_def)
qed

section \<open>Properties of request validation\<close>

lemma validate_missing_or_mistyped:
  assumes "(k, ty) \<in> set ProcurementRequest_fields"
    and "map_of kvs k = None \<or> (\<exists>v. map_of kvs k = Some v \<and> \<not> has_type ty v)"
  shows "validate float_of (PDict kvs) = None"
proof -
  from assms(1) consider
      "k = ''material_name''" "ty = StrField"
    | "k = ''quantity''" "ty = IntField"
    | "k = ''location''" "ty = StrField"
    | "k = ''budget''" "ty = FloatField"
    by (auto simp: ProcurementRequest_fields_def)
  then show ?thesis
  proof cases
    case 1
    with assms(2) show ?thesis
      by (auto simp: validate_def split: option.splits pyval.splits elim: has_type.elims)
  next
    case 2
    with assms(2) show ?thesis
      by (auto simp: validate_def split: option.splits pyval.splits elim: has_type.elims)
  next
    case 3
    with assms(2) show ?thesis
      by (auto simp: validate_def split: option.splits pyval.splits elim: has_type.elims)
  next
    case 4
    with assms(2) show ?thesis
      by (auto simp: validate_def split: option.splits pyval.splits elim: has_type.elims)
  qed
qed

text \<open>
  C8. A request body that is not a dictionary, or in which a declared field is missing
  or holds a value that is not of the field's type, is answered with status 422 and no
  outbound call is made. Validation is by presence and type only: a body with the four
  fields of their types is accepted whatever the integer quantity is, negative ones
  included, and the handler then runs on the request with that quantity.
\<close>

theorem invalid_body_rejected_before_providers:
  "((\<forall>kvs. body \<noteq> PDict kvs) \<longrightarrow> serve float_of env body = (Rejected 422, [])) \<and>
   ((k, ty) \<in> set ProcurementRequest_fields \<longrightarrow>
    (map_of kvs k = None \<or> (\<exists>v. map_of kvs k = Some v \<and> \<not> has_type ty v)) \<longrightarrow>
      serve float_of env (PDict kvs) = (Rejected 422, [])) \<and>
   (\<forall>n.
      validate float_of
        (PDict [(''material_name'', PStr m), (''quantity'', PInt n),
                (''location'', PStr l), (''budget'', PFloat x)]) =
        Some \<lparr>material_name = m, quantity = n, location = l, budget = x\<rparr> \<and>
      fst (serve float_of env
        (PDict [(''material_name'', PStr m), (''quantity'', PInt n),
                (''location'', PStr l), (''budget'', PFloat x)])) =
        Handled (fst (recommend_procurement env
          \<lparr>material_name = m, quantity = n, location = l, budget = x\<rparr>)))"
proof -
  have not_dict: "(\<forall>kvs. body \<noteq> PDict kvs) \<longrightarrow> serve float_of env body = (Rejected 422, [])"
    by (cases body) (simp_all add: serve_def validate_def)
  have bad_field: "(k, ty) \<in> set ProcurementRequest_fields \<longrightarrow>
    (map_of kvs k = None \<or> (\<exists>v. map_of kvs k = Some v \<and> \<not> has_type ty v)) \<longrightarrow>
      serve float_of env (PDict kvs) = (Rejected 422, [])"
    using validate_missing_or_mistyped [of k ty kvs float_of]
    by (simp add: serve_def)
  have accepted: "validate float_of
        (PDict [(''material_name'', PStr m), (''quantity'', PInt n),
                (''location'', PStr l), (''budget'', PFloat x)]) =
        Some \<lparr>material_name = m, quantity = n, location = l, budget = x\<rparr>" for n
    by (simp add: validate_def)
  have "fst (serve float_of env
        (PDict [(''material_name'', PStr m), (''quantity'', PInt n),
                (''location'', PStr l), (''budget'', PFloat x)])) =
        Handled (fst (recommend_procurement env
          \<lparr>material_name = m, quantity = n, location = l, budget = x\<rparr>))" for n
    by (simp add: serve_def accepted)
  with not_dict bad_field accepted show ?thesis by blast
qed

theorem invalid_body_rejected_before_providers_witness:
  "serve real_of_int (fixed_env (search_answer_of three_results) (completion_answer_of (Some ''plan'')))
     (PDict [(''material_name'', PStr ''copper cable''), (''location'', PStr ''Pune''),
             (''budget'', PInt 200000)]) = (Rejected 422, []) \<and>
   serve real_of_int (fixed_env (search_answer_of three_results) (completion_answer_of (Some ''plan'')))
     (PDict [(''material_name'', PStr ''copper cable''), (''quantity'', PStr ''many''),
             (''location'', PStr ''Pune''), (''budget'', PInt 200000)]) = (Rejected 422, []) \<and>
   serve real_of_int (fixed_env (search_answer_of three_results) (completion_answer_of (Some ''plan'')))
     (PList []) = (Rejected 422, []) \<and>
   validate real_of_int
     (PDict [(''material_name'', PStr ''copper cable''), (''quantity'', PInt (- 5)),
             (''location'', PStr ''Pune''), (''budget'', PFloat 200000)]) =
     Some \<lparr>material_name = ''copper cable'', quantity = - 5, location = ''Pune'', budget = 200000\<rparr>"
proof -
  let ?E = "fixed_env (search_answer_of three_results) (completion_answer_of (Some ''plan''))"
  let ?missing = "[(''material_name'', PStr ''copper cable''), (''location'', PStr ''Pune''),
      (''budget'', PInt 200000 :: real pyval)]"
  let ?mistyped = "[(''material_name'', PStr ''copper cable''), (''quantity'', PStr ''many''),
      (''location'', PStr ''Pune''), (''budget'', PInt 200000 :: real pyval)]"
  have field: "(''quantity'', IntField) \<in> set ProcurementRequest_fields"
    by (simp add: ProcurementRequest_fields_def)
  have missing: "map_of ?missing ''quantity'' = None \<or>
      (\<exists>v. map_of ?missing ''quantity'' = Some v \<and> \<not> has_type IntField v)"
    by simp
  have mistyped: "map_of ?mistyped ''quantity'' = None \<or>
      (\<exists>v. map_of ?mistyped ''quantity'' = Some v \<and> \<not> has_type IntField v)"
    by simp
  have not_dict: "\<forall>kvs. (PList [] :: real pyval) \<noteq> PDict kvs"
    by simp
  have 1: "serve real_of_int ?E (PDict ?missing) = (Rejected 422, [])"
    using invalid_body_rejected_before_providers
      [of "PList []" real_of_int ?E "''quantity''" IntField ?missing] field missing
    by blast
  have 2: "serve real_of_int ?E (PDict ?mistyped) = (Rejected 422, [])"
    using invalid_body_rejected_before_providers
      [of "PList []" real_of_int ?E "''quantity''" IntField ?mistyped] field mistyped
    by blast
  have 3: "serve real_of_int ?E (PList []) = (Rejected 422, [])"
    using invalid_body_rejected_before_providers
      [of "PList []" real_of_int ?E "''quantity''" IntField ?missing] not_dict
    by blast
  have 4: "validate real_of_int
     (PDict [(''material_name'', PStr ''copper cable''), (''quantity'', PInt (- 5)),
             (''location'', PStr ''Pune''), (''budget'', PFloat 200000)]) =
     Some \<lparr>material_name = ''copper cable'', quantity = - 5, location = ''Pune'', budget = 200000\<rparr>"
    using invalid_body_rejected_before_providers
      [of "PList []" real_of_int ?E "''quantity''" IntField ?missing
          "''copper cable''" "''Pune''" 200000]
    by blast
  from 1 2 3 4 show ?thesis by simp
qed


end
